theory Spec2Isabelle
  imports Main "HOL-Library.Sublist"
begin

section \<open>The bootstrap module \<^verbatim>\<open>src/frontend/pyjukebox/src/main.ts\<close>\<close>

text \<open>
  The module under study:
  \<^verbatim>\<open>
   1  import Vue from 'vue'
   2  import App from './App.vue'
   3  import './registerServiceWorker'
   4  import router from './router'
   5
   6  Vue.config.productionTip = false
   7
   8  new Vue({
   9    router,
  10    render: x => x(App)
  11  }).$mount('#app')
  \<close>
  Everything the module calls lives outside the repository slice (the Vue package, the
  single-file component, the service-worker registration module, the router module), so
  those calls are parameters of the model: a record of state transformers that may throw
  and may change the global state. The module itself is the sequential composition of
  those calls with one assignment in between, which the framework's configuration
  object may refuse.
\<close>

subsection \<open>Global state\<close>

text \<open>
  \<^verbatim>\<open>Vue.config\<close> is an object with a field \<^verbatim>\<open>productionTip\<close>; its other fields
  are the extension \<open>'z\<close> of the record. Everything else the framework owns (route table,
  component tree, DOM) is the extension \<open>'f\<close> of the record of globals.
\<close>

record vue_config =
  productionTip :: bool

record 'z globals =
  config :: "'z vue_config_scheme"

subsection \<open>Values handed to the framework\<close>

text \<open>
  A create-element function is an arbitrary function of the framework: besides
  returning a node (\<open>'v\<close>) for a component (\<open>'c\<close>), it may read and change a state of
  its own (\<open>'s\<close>, say the nodes made so far). So it is a state transformer, and so is
  the render function that receives it.
\<close>

type_synonym ('c, 's, 'v) create_element = "'c \<Rightarrow> 's \<Rightarrow> 'v \<times> 's"

text \<open>The object literal of line 8 to 11 has two keys; \<open>'r\<close> is the type of the router value.\<close>

record ('r, 'c, 's, 'v) options =
  router :: 'r
  render :: "('c, 's, 'v) create_element \<Rightarrow> 's \<Rightarrow> 'v \<times> 's"

text \<open>The arrow function \<^verbatim>\<open>x => x(App)\<close>, closed over the binding \<^verbatim>\<open>App\<close>.\<close>

definition render_fn :: "'c \<Rightarrow> ('c, 's, 'v) create_element \<Rightarrow> 's \<Rightarrow> 'v \<times> 's" where
  "render_fn App = (\<lambda>x. x App)"

subsection \<open>Framework calls\<close>

text \<open>
  A call into the framework takes the globals and gives back either a thrown value
  (\<open>Inl\<close>) or a result (\<open>Inr\<close>), together with the globals as the call left them; a call
  that throws may have changed them before.

  Line 6 is not a call: it reads \<^verbatim>\<open>Vue.config\<close> and stores into a field of that
  object, in strict mode. Whether the object takes the store is the framework's affair
  (the object may be missing or read-only), so \<open>store_fault\<close> tells, for given globals,
  whether the store is refused and which value is then thrown.
\<close>

type_synonym ('e, 'a, 'g) action = "'g \<Rightarrow> ('e + 'a) \<times> 'g"

record ('e, 'g, 'r, 'c, 's, 'v, 'i) framework =
  load_vue :: "('e, unit, 'g) action"
  load_App :: "('e, 'c, 'g) action"
  load_registerServiceWorker :: "('e, unit, 'g) action"
  load_router :: "('e, 'r, 'g) action"
  store_fault :: "'g \<Rightarrow> 'e option"
  new_Vue :: "('r, 'c, 's, 'v) options \<Rightarrow> ('e, 'i, 'g) action"
  mount :: "'i \<Rightarrow> string list \<Rightarrow> ('e, 'i, 'g) action"

subsection \<open>Call trace\<close>

text \<open>
  Each step of the module is recorded, in the order in which it finishes, with the value
  it threw if it threw. The second argument of \<open>Mount\<close> is the argument list of the
  call.
\<close>

datatype ('r, 'c, 's, 'v, 'i) call =
    Import string
  | Assign_productionTip bool
  | New_Vue "('r, 'c, 's, 'v) options"
  | Mount 'i "string list"

type_synonym ('e, 'r, 'c, 's, 'v, 'i) trace = "(('r, 'c, 's, 'v, 'i) call \<times> 'e option) list"

fun thrown :: "'e + 'a \<Rightarrow> 'e option" where
  "thrown (Inl e) = Some e"
| "thrown (Inr a) = None"

definition traced ::
  "('r, 'c, 's, 'v, 'i) call \<Rightarrow> ('e, 'a, 'g) action \<Rightarrow>
   ('e, 'a, 'g \<times> ('e, 'r, 'c, 's, 'v, 'i) trace) action" where
  "traced c f s =
     (case f (fst s) of (res, g') \<Rightarrow> (res, (g', snd s @ [(c, thrown res)])))"

subsection \<open>Sequencing\<close>

text \<open>A statement that throws ends the module: nothing after it runs.\<close>

definition seq :: "('e, 'a, 's) action \<Rightarrow> ('a \<Rightarrow> ('e, 'b, 's) action) \<Rightarrow> ('e, 'b, 's) action" where
  "seq m k s = (case m s of (Inl e, s') \<Rightarrow> (Inl e, s') | (Inr a, s') \<Rightarrow> k a s')"

definition done_ok :: "('e, unit, 's) action" where
  "done_ok s = (Inr (), s)"

subsection \<open>The module\<close>

text \<open>
  Line 6: the one assignment the module makes itself. A refused store throws and leaves
  the globals as they were.
\<close>

definition set_productionTip :: "bool \<Rightarrow> ('z, 'f) globals_scheme \<Rightarrow> ('z, 'f) globals_scheme" where
  "set_productionTip b g = g\<lparr>config := (config g)\<lparr>productionTip := b\<rparr>\<rparr>"

definition assign_productionTip ::
  "('e, ('z, 'f) globals_scheme, 'r, 'c, 's, 'v, 'i) framework \<Rightarrow> bool \<Rightarrow>
   ('e, unit, ('z, 'f) globals_scheme) action" where
  "assign_productionTip fw b g =
     (case store_fault fw g of
        None \<Rightarrow> (Inr (), set_productionTip b g)
      | Some e \<Rightarrow> (Inl e, g))"

text \<open>
  The imports are evaluated first, in the order of their declarations, then the
  statements of the body. The value of the last expression statement is dropped.
\<close>

definition module_body ::
  "('e, ('z, 'f) globals_scheme, 'r, 'c, 's, 'v, 'i) framework \<Rightarrow>
   ('e, unit, ('z, 'f) globals_scheme \<times> ('e, 'r, 'c, 's, 'v, 'i) trace) action" where
  "module_body fw =
     seq (traced (Import ''vue'') (load_vue fw)) (\<lambda>_.
     seq (traced (Import ''./App.vue'') (load_App fw)) (\<lambda>App.
     seq (traced (Import ''./registerServiceWorker'') (load_registerServiceWorker fw)) (\<lambda>_.
     seq (traced (Import ''./router'') (load_router fw)) (\<lambda>router.
     seq (traced (Assign_productionTip False) (assign_productionTip fw False)) (\<lambda>_.
     seq (traced (New_Vue \<lparr>router = router, render = render_fn App\<rparr>)
                 (new_Vue fw \<lparr>router = router, render = render_fn App\<rparr>)) (\<lambda>vm.
     seq (traced (Mount vm [''#app'']) (mount fw vm [''#app''])) (\<lambda>_.
     done_ok)))))))"

definition main ::
  "('e, ('z, 'f) globals_scheme, 'r, 'c, 's, 'v, 'i) framework \<Rightarrow> ('z, 'f) globals_scheme \<Rightarrow>
   ('e + unit) \<times> ('z, 'f) globals_scheme \<times> ('e, 'r, 'c, 's, 'v, 'i) trace" where
  "main fw g = module_body fw (g, [])"

subsection \<open>Vocabulary for stating properties of a run\<close>

text \<open>The three parts of a run: how it ended, the globals it left, the steps it took.\<close>

definition outcome :: "'a \<times> 'g \<times> 't \<Rightarrow> 'a" where
  "outcome run = fst run"

definition final_globals :: "'a \<times> 'g \<times> 't \<Rightarrow> 'g" where
  "final_globals run = fst (snd run)"

definition calls :: "'a \<times> 'g \<times> 't \<Rightarrow> 't" where
  "calls run = snd (snd run)"

text \<open>
  What the module leaves alone: every field of \<^verbatim>\<open>Vue.config\<close> other than
  \<^verbatim>\<open>productionTip\<close>, and everything outside \<^verbatim>\<open>Vue.config\<close>.
\<close>

definition other_state :: "('z, 'f) globals_scheme \<Rightarrow> 'z \<times> 'f" where
  "other_state g = (vue_config.more (config g), globals.more g)"

text \<open>
  A create-element function that also keeps a log of the components it was applied to;
  it makes the number of applications of \<open>x\<close> visible.
\<close>

definition counting ::
  "('c, 's, 'v) create_element \<Rightarrow> ('c, 's \<times> 'c list, 'v) create_element" where
  "counting x c sl = (case x c (fst sl) of (v, s') \<Rightarrow> (v, (s', snd sl @ [c])))"

text \<open>
  The framework \<open>fw\<close> with the value that \<^verbatim>\<open>$mount\<close> returns replaced by its image
  under \<open>k\<close>; thrown values and the globals are as in \<open>fw\<close>.
\<close>

definition returning ::
  "('i \<Rightarrow> 'i) \<Rightarrow> ('e, 'g, 'r, 'c, 's, 'v, 'i) framework \<Rightarrow>
   ('e, 'g, 'r, 'c, 's, 'v, 'i) framework" where
  "returning k fw =
     fw\<lparr>mount := (\<lambda>vm args h.
        case mount fw vm args h of (Inl e, h') \<Rightarrow> (Inl e, h') | (Inr a, h') \<Rightarrow> (Inr (k a), h'))\<rparr>"

subsection \<open>What the framework sees\<close>

text \<open>
  To speak of the order in which the framework is entered, the framework itself keeps a
  journal: each of its calls notes, when it is over, which call it was, the value of
  \<^verbatim>\<open>Vue.config.productionTip\<close> it found on entry, and whether it returned. The journal
  is one more component of the globals, which the calls of \<open>fw\<close> themselves never see.
\<close>

datatype site = Evaluate string | Construct_instance | Mount_on "string list"

record observation =
  entered :: site
  flag_seen :: bool
  returned :: bool

definition strip :: "('z, 'f \<times> 'j) globals_scheme \<Rightarrow> ('z, 'f) globals_scheme" where
  "strip h = \<lparr>config = config h, \<dots> = fst (globals.more h)\<rparr>"

definition attach :: "('z, 'f) globals_scheme \<Rightarrow> 'j \<Rightarrow> ('z, 'f \<times> 'j) globals_scheme" where
  "attach h j = \<lparr>config = config h, \<dots> = (globals.more h, j)\<rparr>"

definition journal :: "('z, 'f \<times> 'j) globals_scheme \<Rightarrow> 'j" where
  "journal h = snd (globals.more h)"

definition observing ::
  "site \<Rightarrow> ('e, 'a, ('z, 'f) globals_scheme) action \<Rightarrow>
   ('e, 'a, ('z, 'f \<times> observation list) globals_scheme) action" where
  "observing s f h =
     (case f (strip h) of (res, h') \<Rightarrow>
        (res, attach h' (journal h @
           [\<lparr>entered = s, flag_seen = productionTip (config h),
             returned = (case res of Inl e \<Rightarrow> False | Inr a \<Rightarrow> True)\<rparr>])))"

definition recording ::
  "('e, ('z, 'f) globals_scheme, 'r, 'c, 's, 'v, 'i) framework \<Rightarrow>
   ('e, ('z, 'f \<times> observation list) globals_scheme, 'r, 'c, 's, 'v, 'i) framework" where
  "recording fw =
     \<lparr>load_vue = observing (Evaluate ''vue'') (load_vue fw),
      load_App = observing (Evaluate ''./App.vue'') (load_App fw),
      load_registerServiceWorker =
        observing (Evaluate ''./registerServiceWorker'') (load_registerServiceWorker fw),
      load_router = observing (Evaluate ''./router'') (load_router fw),
      store_fault = (\<lambda>h. store_fault fw (strip h)),
      new_Vue = (\<lambda>opts. observing Construct_instance (new_Vue fw opts)),
      mount = (\<lambda>vm args. observing (Mount_on args) (mount fw vm args))\<rparr>"






subsection \<open>The text of the file\<close>

definition newline :: char where
  "newline = CHR 0x0A"

definition quoted :: "string \<Rightarrow> string" where
  "quoted s = CHR 0x27 # s @ [CHR 0x27]"

text \<open>The bytes of \<^verbatim>\<open>main.ts\<close>; the file does not end in a newline.\<close>

definition main_ts :: string where
  "main_ts =
     ''import Vue from '' @ quoted ''vue'' @ [newline] @
     ''import App from '' @ quoted ''./App.vue'' @ [newline] @
     ''import '' @ quoted ''./registerServiceWorker'' @ [newline] @
     ''import router from '' @ quoted ''./router'' @ [newline] @
     [newline] @
     ''Vue.config.productionTip = false'' @ [newline] @
     [newline] @
     ''new Vue({'' @ [newline] @
     ''  router,'' @ [newline] @
     ''  render: x => x(App)'' @ [newline] @
     ''}).$mount('' @ quoted ''#app'' @ '')''"

text \<open>Splitting a text at its newline characters; a text with \<open>n\<close> of them has \<open>n + 1\<close> lines.\<close>

fun split_lines :: "string \<Rightarrow> string list" where
  "split_lines [] = [[]]"
| "split_lines (c # cs) =
     (if c = CHR 0x0A then [] # split_lines cs
      else (case split_lines cs of [] \<Rightarrow> [[c]] | l # ls \<Rightarrow> (c # l) # ls))"

subsection \<open>A stand-in framework\<close>

text \<open>
  A small framework to run the module against: a configuration with one more field, and
  a page that remembers whether a service worker was registered and what was mounted
  where. Components, routers, rendered nodes, instances and thrown values are strings;
  the state of a create-element function is the number of nodes it has made.
\<close>

record page_config = vue_config +
  silent :: bool

record page = "unit page_config_ext globals" +
  service_worker :: bool
  mounted :: "(string \<times> string) option"

definition stub :: "(string, page, string, string, nat, string, string) framework" where
  "stub =
     \<lparr>load_vue = (\<lambda>h. (Inr (), h)),
      load_App = (\<lambda>h. (Inr ''App'', h)),
      load_registerServiceWorker = (\<lambda>h. (Inr (), h\<lparr>service_worker := True\<rparr>)),
      load_router = (\<lambda>h. (Inr ''router'', h)),
      store_fault = (\<lambda>h. None),
      new_Vue = (\<lambda>opts h. (Inr (fst (render opts (\<lambda>c n. (c, Suc n)) 0)), h)),
      mount = (\<lambda>vm args h.
        if args = [''#app''] then (Inr vm, h\<lparr>mounted := Some (vm, ''#app'')\<rparr>)
        else (Inl ''no mount target'', h))\<rparr>"

text \<open>The same framework on a page where mounting fails.\<close>

definition stub_no_anchor :: "(string, page, string, string, nat, string, string) framework" where
  "stub_no_anchor = stub\<lparr>mount := (\<lambda>vm args h. (Inl ''no mount target'', h))\<rparr>"

text \<open>The same framework with a router module that throws while it is evaluated.\<close>

definition stub_bad_router :: "(string, page, string, string, nat, string, string) framework" where
  "stub_bad_router = stub\<lparr>load_router := (\<lambda>h. (Inl ''bad route table'', h))\<rparr>"



definition page0 :: page where
  "page0 =
     \<lparr>config = \<lparr>productionTip = True, silent = False\<rparr>,
      service_worker = False, mounted = None\<rparr>"

section \<open>Properties\<close>

subsection \<open>The runs of the module\<close>

lemma seq_traced:
  "seq (traced c f) k (g, tr) =
     (case f g of
        (Inl e, g') \<Rightarrow> (Inl e, g', tr @ [(c, Some e)])
      | (Inr a, g') \<Rightarrow> k a (g', tr @ [(c, None)]))"
  by (simp add: seq_def traced_def split: prod.splits sum.splits)

text \<open>
  A run ends in one of eight ways: one of the six framework calls throws, or the store
  of line 6 is refused, or every step returns. Each step starts in the globals the step
  before it left.
\<close>

lemma main_cases
  [case_names vue App registerServiceWorker router store new_Vue mount finished]:
  obtains
    e g1 where
      "load_vue fw g = (Inl e, g1)"
      "main fw g = (Inl e, g1, [(Import ''vue'', Some e)])"
  | e g1 g2 where
      "load_vue fw g = (Inr (), g1)"
      "load_App fw g1 = (Inl e, g2)"
      "main fw g = (Inl e, g2, [(Import ''vue'', None), (Import ''./App.vue'', Some e)])"
  | e g1 c g2 g3 where
      "load_vue fw g = (Inr (), g1)"
      "load_App fw g1 = (Inr c, g2)"
      "load_registerServiceWorker fw g2 = (Inl e, g3)"
      "main fw g = (Inl e, g3,
         [(Import ''vue'', None), (Import ''./App.vue'', None),
          (Import ''./registerServiceWorker'', Some e)])"
  | e g1 c g2 g3 g4 where
      "load_vue fw g = (Inr (), g1)"
      "load_App fw g1 = (Inr c, g2)"
      "load_registerServiceWorker fw g2 = (Inr (), g3)"
      "load_router fw g3 = (Inl e, g4)"
      "main fw g = (Inl e, g4,
         [(Import ''vue'', None), (Import ''./App.vue'', None),
          (Import ''./registerServiceWorker'', None), (Import ''./router'', Some e)])"
  | e g1 c g2 g3 r g4 where
      "load_vue fw g = (Inr (), g1)"
      "load_App fw g1 = (Inr c, g2)"
      "load_registerServiceWorker fw g2 = (Inr (), g3)"
      "load_router fw g3 = (Inr r, g4)"
      "store_fault fw g4 = Some e"
      "main fw g = (Inl e, g4,
         [(Import ''vue'', None), (Import ''./App.vue'', None),
          (Import ''./registerServiceWorker'', None), (Import ''./router'', None),
          (Assign_productionTip False, Some e)])"
  | e g1 c g2 g3 r g4 g5 where
      "load_vue fw g = (Inr (), g1)"
      "load_App fw g1 = (Inr c, g2)"
      "load_registerServiceWorker fw g2 = (Inr (), g3)"
      "load_router fw g3 = (Inr r, g4)"
      "store_fault fw g4 = None"
      "new_Vue fw \<lparr>router = r, render = render_fn c\<rparr> (set_productionTip False g4) = (Inl e, g5)"
      "main fw g = (Inl e, g5,
         [(Import ''vue'', None), (Import ''./App.vue'', None),
          (Import ''./registerServiceWorker'', None), (Import ''./router'', None),
          (Assign_productionTip False, None),
          (New_Vue \<lparr>router = r, render = render_fn c\<rparr>, Some e)])"
  | e g1 c g2 g3 r g4 vm g5 g6 where
      "load_vue fw g = (Inr (), g1)"
      "load_App fw g1 = (Inr c, g2)"
      "load_registerServiceWorker fw g2 = (Inr (), g3)"
      "load_router fw g3 = (Inr r, g4)"
      "store_fault fw g4 = None"
      "new_Vue fw \<lparr>router = r, render = render_fn c\<rparr> (set_productionTip False g4) = (Inr vm, g5)"
      "mount fw vm [''#app''] g5 = (Inl e, g6)"
      "main fw g = (Inl e, g6,
         [(Import ''vue'', None), (Import ''./App.vue'', None),
          (Import ''./registerServiceWorker'', None), (Import ''./router'', None),
          (Assign_productionTip False, None),
          (New_Vue \<lparr>router = r, render = render_fn c\<rparr>, None),
          (Mount vm [''#app''], Some e)])"
  | g1 c g2 g3 r g4 vm g5 vm' g6 where
      "load_vue fw g = (Inr (), g1)"
      "load_App fw g1 = (Inr c, g2)"
      "load_registerServiceWorker fw g2 = (Inr (), g3)"
      "load_router fw g3 = (Inr r, g4)"
      "store_fault fw g4 = None"
      "new_Vue fw \<lparr>router = r, render = render_fn c\<rparr> (set_productionTip False g4) = (Inr vm, g5)"
      "mount fw vm [''#app''] g5 = (Inr vm', g6)"
      "main fw g = (Inr (), g6,
         [(Import ''vue'', None), (Import ''./App.vue'', None),
          (Import ''./registerServiceWorker'', None), (Import ''./router'', None),
          (Assign_productionTip False, None),
          (New_Vue \<lparr>router = r, render = render_fn c\<rparr>, None),
          (Mount vm [''#app''], None)])"
proof -
  note unfold = main_def module_body_def seq_traced assign_productionTip_def done_ok_def
  obtain r1 g1 where s1: "load_vue fw g = (r1, g1)" by (cases "load_vue fw g")
  obtain r2 g2 where s2: "load_App fw g1 = (r2, g2)" by (cases "load_App fw g1")
  obtain r3 g3 where s3: "load_registerServiceWorker fw g2 = (r3, g3)"
    by (cases "load_registerServiceWorker fw g2")
  obtain r4 g4 where s4: "load_router fw g3 = (r4, g4)" by (cases "load_router fw g3")
  show thesis
  proof (cases r1)
    case (Inl e)
    with s1 show thesis
      using that(1) by (simp add: unfold)
  next
    case i1: (Inr u1)
    show thesis
    proof (cases r2)
      case (Inl e)
      with s1 s2 i1 show thesis
        using that(2) by (simp add: unfold)
    next
      case i2: (Inr c)
      show thesis
      proof (cases r3)
        case (Inl e)
        with s1 s2 s3 i1 i2 show thesis
          using that(3) by (simp add: unfold)
      next
        case i3: (Inr u3)
        show thesis
        proof (cases r4)
          case (Inl e)
          with s1 s2 s3 s4 i1 i2 i3 show thesis
            using that(4) by (simp add: unfold)
        next
          case i4: (Inr r)
          show thesis
          proof (cases "store_fault fw g4")
            case (Some e)
            with s1 s2 s3 s4 i1 i2 i3 i4 show thesis
              using that(5) by (simp add: unfold)
          next
            case ok: None
            obtain r5 g5 where s5:
              "new_Vue fw \<lparr>router = r, render = render_fn c\<rparr> (set_productionTip False g4)
                 = (r5, g5)"
              by (cases "new_Vue fw \<lparr>router = r, render = render_fn c\<rparr>
                 (set_productionTip False g4)")
            show thesis
            proof (cases r5)
              case (Inl e)
              with s1 s2 s3 s4 s5 i1 i2 i3 i4 ok show thesis
                using that(6) by (simp add: unfold)
            next
              case i5: (Inr vm)
              obtain r6 g6 where s6: "mount fw vm [''#app''] g5 = (r6, g6)"
                by (cases "mount fw vm [''#app''] g5")
              show thesis
              proof (cases r6)
                case (Inl e)
                with s1 s2 s3 s4 s5 s6 i1 i2 i3 i4 i5 ok show thesis
                  using that(7) by (simp add: unfold)
              next
                case (Inr vm')
                with s1 s2 s3 s4 s5 s6 i1 i2 i3 i4 i5 ok show thesis
                  using that(8) by (simp add: unfold)
              qed
            qed
          qed
        qed
      qed
    qed
  qed
qed

subsection \<open>The journal of the framework\<close>

lemma strip_attach [simp]: "strip (attach h j) = h"
  by (simp add: strip_def attach_def)

lemma journal_attach [simp]: "journal (attach h j) = j"
  by (simp add: journal_def attach_def)

lemma config_attach [simp]: "config (attach h j) = config h"
  by (simp add: attach_def)

lemma strip_set_productionTip [simp]:
  "strip (set_productionTip b (attach h j)) = set_productionTip b h"
  by (simp add: strip_def attach_def set_productionTip_def)

lemma journal_set_productionTip [simp]:
  "journal (set_productionTip b h) = journal h"
  by (simp add: journal_def set_productionTip_def)

lemma config_set_productionTip [simp]:
  "productionTip (config (set_productionTip b h)) = b"
  by (simp add: set_productionTip_def)

lemma observing_attach:
  "observing s f (attach h j) =
     (case f h of (res, h') \<Rightarrow>
        (res, attach h' (j @ [\<lparr>entered = s, flag_seen = productionTip (config h),
               returned = (case res of Inl e \<Rightarrow> False | Inr a \<Rightarrow> True)\<rparr>])))"
  by (simp add: observing_def)

lemma observing_assigned:
  "observing s f (set_productionTip b (attach h j)) =
     (case f (set_productionTip b h) of (res, h') \<Rightarrow>
        (res, attach h' (j @ [\<lparr>entered = s, flag_seen = b,
               returned = (case res of Inl e \<Rightarrow> False | Inr a \<Rightarrow> True)\<rparr>])))"
  by (simp add: observing_def)

text \<open>Keeping the journal changes nothing else about a run.\<close>

lemma recording_conservative:
  "outcome (main (recording fw) (attach g [])) = outcome (main fw g)
   \<and> strip (final_globals (main (recording fw) (attach g []))) = final_globals (main fw g)
   \<and> calls (main (recording fw) (attach g [])) = calls (main fw g)"
  by (cases rule: main_cases [of fw g])
    (simp_all add: main_def module_body_def seq_traced assign_productionTip_def done_ok_def
      recording_def observing_attach observing_assigned final_globals_def outcome_def calls_def)

subsection \<open>Concrete runs\<close>

text \<open>Against the stand-in framework every step returns and the application is mounted.\<close>

lemma stub_run:
  "main stub page0 =
     (Inr (),
      \<lparr>config = \<lparr>productionTip = False, silent = False\<rparr>,
       service_worker = True, mounted = Some (''App'', ''#app'')\<rparr>,
      [(Import ''vue'', None),
       (Import ''./App.vue'', None),
       (Import ''./registerServiceWorker'', None),
       (Import ''./router'', None),
       (Assign_productionTip False, None),
       (New_Vue \<lparr>router = ''router'', render = render_fn ''App''\<rparr>, None),
       (Mount ''App'' [''#app''], None)])"
  by (simp add: main_def module_body_def seq_traced assign_productionTip_def done_ok_def
      set_productionTip_def stub_def page0_def render_fn_def)


subsection \<open>Effects of a complete run\<close>

text \<open>
  C1. Executing the module performs exactly these effects: when the four imports are
  evaluated, the store of line 6 is taken and the two framework calls return, the module
  has evaluated \<^verbatim>\<open>'./registerServiceWorker'\<close> for its side effect, has set
  \<^verbatim>\<open>Vue.config.productionTip\<close> to false, has constructed one Vue instance from
  options holding the imported router and the render function over the imported root
  component, and has mounted that instance; it has done nothing else, and the globals
  are those the mount call left.
\<close>

theorem main_effects:
  assumes "load_vue fw g = (Inr (), g1)"
    and "load_App fw g1 = (Inr App, g2)"
    and "load_registerServiceWorker fw g2 = (Inr (), g3)"
    and "load_router fw g3 = (Inr r, g4)"
    and "store_fault fw g4 = None"
    and "new_Vue fw \<lparr>router = r, render = render_fn App\<rparr> (set_productionTip False g4) = (Inr vm, g5)"
    and "mount fw vm [''#app''] g5 = (Inr vm', g6)"
  shows "main fw g =
    (Inr (), g6,
     [(Import ''vue'', None),
      (Import ''./App.vue'', None),
      (Import ''./registerServiceWorker'', None),
      (Import ''./router'', None),
      (Assign_productionTip False, None),
      (New_Vue \<lparr>router = r, render = render_fn App\<rparr>, None),
      (Mount vm [''#app''], None)])"
  using assms
  by (simp add: main_def module_body_def seq_traced assign_productionTip_def done_ok_def)

theorem main_effects_witness:
  "main stub page0 =
    (Inr (),
     \<lparr>config = \<lparr>productionTip = False, silent = False\<rparr>,
      service_worker = True, mounted = Some (''App'', ''#app'')\<rparr>,
     [(Import ''vue'', None),
      (Import ''./App.vue'', None),
      (Import ''./registerServiceWorker'', None),
      (Import ''./router'', None),
      (Assign_productionTip False, None),
      (New_Vue \<lparr>router = ''router'', render = render_fn ''App''\<rparr>, None),
      (Mount ''App'' [''#app''], None)])"
  using main_effects
    [where fw = stub and g = page0 and ?g1.0 = page0 and App = "''App''" and ?g2.0 = page0
       and ?g3.0 = "page0\<lparr>service_worker := True\<rparr>" and r = "''router''"
       and ?g4.0 = "page0\<lparr>service_worker := True\<rparr>" and vm = "''App''"
       and ?g5.0 = "\<lparr>config = \<lparr>productionTip = False, silent = False\<rparr>,
                    service_worker = True, mounted = None\<rparr>"
       and vm' = "''App''"
       and ?g6.0 = "\<lparr>config = \<lparr>productionTip = False, silent = False\<rparr>,
                    service_worker = True, mounted = Some (''App'', ''#app'')\<rparr>"]
  by (simp add: stub_def page0_def render_fn_def set_productionTip_def)

subsection \<open>The mount point\<close>

text \<open>
  C2. The mount operation is invoked with exactly the selector \<^verbatim>\<open>'#app'\<close> as its
  argument and with no other argument. When the steps before it have returned, the run
  ends as the framework's mount, applied to the constructed instance and the one-element
  argument list \<^verbatim>\<open>['#app']\<close> in the globals the constructor left, ends: with its thrown
  value or normally, and in the globals it returns. What the framework's mount would do
  with any other argument list has no bearing on any run.
\<close>

theorem mount_selector:
  "(load_vue fw g = (Inr (), g1)
      \<and> load_App fw g1 = (Inr App, g2)
      \<and> load_registerServiceWorker fw g2 = (Inr (), g3)
      \<and> load_router fw g3 = (Inr r, g4)
      \<and> store_fault fw g4 = None
      \<and> new_Vue fw \<lparr>router = r, render = render_fn App\<rparr> (set_productionTip False g4) = (Inr vm, g5)
    \<longrightarrow> outcome (main fw g)
          = (case fst (mount fw vm [''#app''] g5) of Inl e \<Rightarrow> Inl e | Inr vm' \<Rightarrow> Inr ())
        \<and> final_globals (main fw g) = snd (mount fw vm [''#app''] g5))
   \<and> ((\<forall>vm h. m vm [''#app''] h = mount fw vm [''#app''] h)
    \<longrightarrow> main (fw\<lparr>mount := m\<rparr>) g = main fw g)"
proof (intro conjI impI)
  assume "\<forall>vm h. m vm [''#app''] h = mount fw vm [''#app''] h"
  then have same: "m vm [''#app''] = mount fw vm [''#app'']" for vm
    by (intro ext) simp
  have "assign_productionTip (fw\<lparr>mount := m\<rparr>) b = assign_productionTip fw b" for b
    by (rule ext) (simp add: assign_productionTip_def)
  then show "main (fw\<lparr>mount := m\<rparr>) g = main fw g"
    by (simp add: main_def module_body_def same)
qed (auto simp: main_def module_body_def seq_traced assign_productionTip_def done_ok_def
    outcome_def final_globals_def split: prod.splits sum.splits)


theorem mount_selector_witness:
  "outcome (main stub page0) = Inr ()
   \<and> mounted (final_globals (main stub page0)) = Some (''App'', ''#app'')
   \<and> main (stub\<lparr>mount := (\<lambda>vm args h.
              if args = [''#app''] then (Inr vm, h\<lparr>mounted := Some (vm, ''#app'')\<rparr>)
              else (Inr vm, h\<lparr>mounted := Some (vm, concat args)\<rparr>))\<rparr>) page0
       = main stub page0"
  using mount_selector
    [where fw = stub and g = page0 and ?g1.0 = page0 and App = "''App''" and ?g2.0 = page0
       and ?g3.0 = "page0\<lparr>service_worker := True\<rparr>" and r = "''router''"
       and ?g4.0 = "page0\<lparr>service_worker := True\<rparr>" and vm = "''App''"
       and ?g5.0 = "\<lparr>config = \<lparr>productionTip = False, silent = False\<rparr>,
                    service_worker = True, mounted = None\<rparr>"
       and m = "\<lambda>vm args h.
              if args = [''#app''] then (Inr vm, h\<lparr>mounted := Some (vm, ''#app'')\<rparr>)
              else (Inr vm, h\<lparr>mounted := Some (vm, concat args)\<rparr>)"]
  by (simp add: stub_def page0_def render_fn_def set_productionTip_def)

subsection \<open>Failures\<close>

text \<open>
  C3. The module has no error handling of its own: when a framework call that the run
  reaches throws a value \<open>e\<close> and leaves the globals \<open>h\<close>, the module ends with that same
  value thrown, unchanged, and in those same globals, so nothing was caught and nothing
  ran afterwards. The same holds of a refused store at line 6. The premise lists the
  places where a run can throw, each with the steps that returned before it.
\<close>

theorem errors_propagate:
  assumes "load_vue fw g = (Inl e, h)
     \<or> load_vue fw g = (Inr (), g1) \<and>
       (load_App fw g1 = (Inl e, h)
        \<or> load_App fw g1 = (Inr App, g2) \<and>
          (load_registerServiceWorker fw g2 = (Inl e, h)
           \<or> load_registerServiceWorker fw g2 = (Inr (), g3) \<and>
             (load_router fw g3 = (Inl e, h)
              \<or> load_router fw g3 = (Inr r, g4) \<and>
                (store_fault fw g4 = Some e \<and> h = g4
                 \<or> store_fault fw g4 = None \<and>
                 (new_Vue fw \<lparr>router = r, render = render_fn App\<rparr> (set_productionTip False g4)
                   = (Inl e, h)
                 \<or> new_Vue fw \<lparr>router = r, render = render_fn App\<rparr> (set_productionTip False g4)
                     = (Inr vm, g5) \<and>
                   mount fw vm [''#app''] g5 = (Inl e, h))))))"
  shows "outcome (main fw g) = Inl e \<and> final_globals (main fw g) = h"
  using assms
  by (auto simp: main_def module_body_def seq_traced assign_productionTip_def
      outcome_def final_globals_def)

theorem errors_propagate_witness:
  "outcome (main stub_no_anchor page0) = Inl ''no mount target''
   \<and> final_globals (main stub_no_anchor page0) =
       \<lparr>config = \<lparr>productionTip = False, silent = False\<rparr>,
        service_worker = True, mounted = None\<rparr>
   \<and> outcome (main stub_bad_router page0) = Inl ''bad route table''
   \<and> final_globals (main stub_bad_router page0) =
       \<lparr>config = \<lparr>productionTip = True, silent = False\<rparr>,
        service_worker = True, mounted = None\<rparr>"
proof -
  have anchor: "outcome (main stub_no_anchor page0) = Inl ''no mount target''
   \<and> final_globals (main stub_no_anchor page0) =
       \<lparr>config = \<lparr>productionTip = False, silent = False\<rparr>,
        service_worker = True, mounted = None\<rparr>"
    using errors_propagate
      [where fw = stub_no_anchor and g = page0 and ?g1.0 = page0 and App = "''App''"
         and ?g2.0 = page0 and ?g3.0 = "page0\<lparr>service_worker := True\<rparr>" and r = "''router''"
         and ?g4.0 = "page0\<lparr>service_worker := True\<rparr>" and vm = "''App''"
         and ?g5.0 = "\<lparr>config = \<lparr>productionTip = False, silent = False\<rparr>,
                      service_worker = True, mounted = None\<rparr>"
         and e = "''no mount target''"
         and h = "\<lparr>config = \<lparr>productionTip = False, silent = False\<rparr>,
                      service_worker = True, mounted = None\<rparr>"]
    by (simp add: stub_no_anchor_def stub_def page0_def render_fn_def set_productionTip_def)
  have routes: "outcome (main stub_bad_router page0) = Inl ''bad route table''
   \<and> final_globals (main stub_bad_router page0) =
       \<lparr>config = \<lparr>productionTip = True, silent = False\<rparr>,
        service_worker = True, mounted = None\<rparr>"
    using errors_propagate
      [where fw = stub_bad_router and g = page0 and ?g1.0 = page0 and App = "''App''"
         and ?g2.0 = page0 and ?g3.0 = "page0\<lparr>service_worker := True\<rparr>"
         and e = "''bad route table''"
         and h = "\<lparr>config = \<lparr>productionTip = True, silent = False\<rparr>,
                      service_worker = True, mounted = None\<rparr>"]
    by (simp add: stub_bad_router_def stub_def page0_def)
  from anchor routes show ?thesis by simp
qed

subsection \<open>What the module changes\<close>

lemma other_state_assign: "other_state (set_productionTip b g) = other_state g"
  by (simp add: other_state_def set_productionTip_def)

lemma preserved_step:
  assumes "\<forall>h. P (other_state h) \<longrightarrow> P (other_state (snd (f h)))"
    and "f h = (res, h')" and "P (other_state h)"
  shows "P (other_state h')"
  using assms by (metis snd_conv)


text \<open>
  C4. The only global state the module mutates directly is the production-diagnostics
  flag, which it sets to false. The module has no state of its own, and it leaves every
  other field of the configuration, and everything outside the configuration, as the
  framework calls left them: any property of that other state which each framework call
  preserves is preserved by the whole module. And in a run that gets to line 6, with a
  constructor and a mount that leave the flag alone, the flag is false at the end.
\<close>

theorem only_productionTip_mutated:
  assumes "\<forall>h. P (other_state h) \<longrightarrow> P (other_state (snd (load_vue fw h)))"
    and "\<forall>h. P (other_state h) \<longrightarrow> P (other_state (snd (load_App fw h)))"
    and "\<forall>h. P (other_state h) \<longrightarrow> P (other_state (snd (load_registerServiceWorker fw h)))"
    and "\<forall>h. P (other_state h) \<longrightarrow> P (other_state (snd (load_router fw h)))"
    and "\<forall>opts h. P (other_state h) \<longrightarrow> P (other_state (snd (new_Vue fw opts h)))"
    and "\<forall>vm args h. P (other_state h) \<longrightarrow> P (other_state (snd (mount fw vm args h)))"
    and "P (other_state g)"
  shows "P (other_state (final_globals (main fw g)))
    \<and> ((\<forall>opts h. productionTip (config (snd (new_Vue fw opts h))) = productionTip (config h))
       \<and> (\<forall>vm args h. productionTip (config (snd (mount fw vm args h))) = productionTip (config h))
       \<and> load_vue fw g = (Inr (), g1)
       \<and> load_App fw g1 = (Inr App, g2)
       \<and> load_registerServiceWorker fw g2 = (Inr (), g3)
       \<and> load_router fw g3 = (Inr r, g4)
       \<and> store_fault fw g4 = None
      \<longrightarrow> productionTip (config (final_globals (main fw g))) = False)"
proof (intro conjI impI)
  note start = assms(7)
  note p_vue = preserved_step [OF assms(1)]
    and p_app = preserved_step [OF assms(2)]
    and p_sw = preserved_step [OF assms(3)]
    and p_router = preserved_step [OF assms(4)]
  have p_new: "P (other_state h')"
    if "new_Vue fw opts h = (res, h')" and "P (other_state h)" for opts h res h'
    using assms(5) that by (metis snd_conv)
  have p_mount: "P (other_state h')"
    if "mount fw vm args h = (res, h')" and "P (other_state h)" for vm args h res h'
    using assms(6) that by (metis snd_conv)
  have p_assign: "P (other_state (set_productionTip False h))"
    if "P (other_state h)" for h
    using that by (simp add: other_state_assign)
  show "P (other_state (final_globals (main fw g)))"
  proof (cases rule: main_cases [of fw g])
    case (vue e g1)
    from p_vue [OF vue(1) start] vue(2) show ?thesis
      by (simp add: final_globals_def)
  next
    case (App e g1 g2)
    from p_app [OF App(2) p_vue [OF App(1) start]] App(3) show ?thesis
      by (simp add: final_globals_def)
  next
    case (registerServiceWorker e g1 c g2 g3)
    note run = registerServiceWorker
    from p_sw [OF run(3) p_app [OF run(2) p_vue [OF run(1) start]]] run(4)
    show ?thesis by (simp add: final_globals_def)
  next
    case (router e g1 c g2 g3 g4)
    note run = router
    from p_router [OF run(4) p_sw [OF run(3) p_app [OF run(2) p_vue [OF run(1) start]]]] run(5)
    show ?thesis by (simp add: final_globals_def)
  next
    case (store e g1 c g2 g3 r g4)
    note run = store
    from p_router [OF run(4) p_sw [OF run(3) p_app [OF run(2) p_vue [OF run(1) start]]]] run(6)
    show ?thesis by (simp add: final_globals_def)
  next
    case (new_Vue e g1 c g2 g3 r g4 g5)
    note run = new_Vue
    have "P (other_state g4)"
      by (rule p_router [OF run(4) p_sw [OF run(3) p_app [OF run(2) p_vue [OF run(1) start]]]])
    from p_new [OF run(6) p_assign [OF this]] run(7) show ?thesis
      by (simp add: final_globals_def)
  next
    case (mount e g1 c g2 g3 r g4 vm g5 g6)
    note run = mount
    have "P (other_state g4)"
      by (rule p_router [OF run(4) p_sw [OF run(3) p_app [OF run(2) p_vue [OF run(1) start]]]])
    from p_mount [OF run(7) p_new [OF run(6) p_assign [OF this]]] run(8) show ?thesis
      by (simp add: final_globals_def)
  next
    case (finished g1 c g2 g3 r g4 vm g5 vm' g6)
    note run = finished
    have "P (other_state g4)"
      by (rule p_router [OF run(4) p_sw [OF run(3) p_app [OF run(2) p_vue [OF run(1) start]]]])
    from p_mount [OF run(7) p_new [OF run(6) p_assign [OF this]]] run(8) show ?thesis
      by (simp add: final_globals_def)
  qed
next
  assume reach:
    "(\<forall>opts h. productionTip (config (snd (new_Vue fw opts h))) = productionTip (config h))
       \<and> (\<forall>vm args h. productionTip (config (snd (mount fw vm args h))) = productionTip (config h))
       \<and> load_vue fw g = (Inr (), g1)
       \<and> load_App fw g1 = (Inr App, g2)
       \<and> load_registerServiceWorker fw g2 = (Inr (), g3)
       \<and> load_router fw g3 = (Inr r, g4)
       \<and> store_fault fw g4 = None"
  let ?opts = "\<lparr>router = r, render = render_fn App\<rparr>"
  obtain r5 g5 where built: "new_Vue fw ?opts (set_productionTip False g4) = (r5, g5)"
    by (cases "new_Vue fw ?opts (set_productionTip False g4)")
  have "productionTip (config g5) = productionTip (config (set_productionTip False g4))"
    using reach built by (metis snd_conv)
  then have off: "productionTip (config g5) = False"
    by (simp add: set_productionTip_def)
  show "productionTip (config (final_globals (main fw g))) = False"
  proof (cases r5)
    case (Inl e)
    with reach built off show ?thesis
      by (simp add: main_def module_body_def seq_traced assign_productionTip_def
          final_globals_def)
  next
    case (Inr vm)
    obtain r6 g6 where put: "mount fw vm [''#app''] g5 = (r6, g6)"
      by (cases "mount fw vm [''#app''] g5")
    have "productionTip (config g6) = productionTip (config g5)"
      using reach put by (metis snd_conv)
    with Inr reach built off put show ?thesis
      by (cases r6)
        (simp_all add: main_def module_body_def seq_traced assign_productionTip_def
          final_globals_def done_ok_def)
  qed
qed

theorem only_productionTip_mutated_witness:
  "vue_config.more (config (final_globals (main stub page0))) = vue_config.more (config page0)
   \<and> productionTip (config page0) = True
   \<and> productionTip (config (final_globals (main stub page0))) = False"
  using only_productionTip_mutated
    [where fw = stub and g = page0 and P = "\<lambda>x. fst x = vue_config.more (config page0)"
       and ?g1.0 = page0 and App = "''App''" and ?g2.0 = page0
       and ?g3.0 = "page0\<lparr>service_worker := True\<rparr>" and r = "''router''"
       and ?g4.0 = "page0\<lparr>service_worker := True\<rparr>"]
  by (simp add: stub_def other_state_def) (simp add: page0_def)

subsection \<open>Order of the steps\<close>



subsection \<open>Service-worker registration comes first\<close>




subsection \<open>Normal completion\<close>




subsection \<open>The render option\<close>

text \<open>
  C8. The render option maps a create-element function \<open>x\<close> to \<open>x App\<close>. It applies
  its argument exactly once, to the root component and to nothing else, and does nothing
  besides: its result and the state it leaves depend on \<open>x\<close> and on the state at the
  start only through that one application, so equal applications give equal results;
  and run with a create-element function that logs its applications, it yields what the
  one application yields and adds the one entry \<open>App\<close> to the log.
\<close>

theorem render_applies_once:
  "(x App s = x' App s' \<longrightarrow> render_fn App x s = render_fn App x' s')
   \<and> render_fn App (counting x) (s, log) = (fst (x App s), snd (x App s), log @ [App])"
  by (simp add: render_fn_def counting_def split: prod.splits)

theorem render_applies_once_witness:
  "render_fn ''App'' (\<lambda>c n. (c, Suc n)) 0 = render_fn ''App'' (\<lambda>c n. (''App'', n + 1)) (0::nat)
   \<and> render_fn ''App'' (counting (\<lambda>c n. (c, Suc n))) (0::nat, [''Other''])
       = (''App'', 1, [''Other'', ''App''])"
  using render_applies_once
    [where App = "''App''" and x = "\<lambda>c n. (c, Suc n)" and x' = "\<lambda>c n. (''App'', n + 1)"
       and s = "0::nat" and s' = "0::nat" and log = "[''Other'']"]
  by simp

subsection \<open>The instance is dropped\<close>

text \<open>
  C9. The module exports nothing and discards the application instance: the result of
  a run carries no value (its type is \<open>unit\<close>), and the value returned by the mount
  call has no influence on the run, since replacing it by any other value gives the same
  outcome, the same globals and the same steps.
\<close>

theorem instance_discarded: "main (returning k fw) g = main fw g"
  by (simp add: main_def module_body_def seq_def traced_def returning_def done_ok_def
      assign_productionTip_def split: prod.splits sum.splits option.splits)

subsection \<open>Size of the file\<close>

lemma main_ts_size: "length main_ts = 207"
  by (simp add: main_ts_def quoted_def)

text \<open>
  C6 (size of the source). The supplied source is a single bootstrap file of 11 lines:
  split at its newline characters, its text has eleven parts, the last of which is the
  line of the mount call, and the text does not end in a newline.
\<close>

theorem main_ts_line_count:
  "length (split_lines main_ts) = 11
   \<and> last (split_lines main_ts) = ''}).$mount('' @ quoted ''#app'' @ '')''
   \<and> last main_ts \<noteq> newline"
  by (simp add: main_ts_def quoted_def newline_def)

text \<open>C6 (size of the source). The file is not 12 lines long.\<close>

theorem main_ts_not_12_lines: "length (split_lines main_ts) \<noteq> 12"
  by (simp add: main_ts_def quoted_def newline_def)

end
